theory Spec2Isabelle
  imports Complex_Main
begin

section \<open>Decimal quantities\<close>

text \<open>
  Every monetary quantity of the simulation is a Python \<^verbatim>\<open>Decimal\<close>. A finite decimal is a
  rational number, and the arithmetic the agents perform on it (sums, differences, products,
  comparisons, \<^verbatim>\<open>min\<close>, \<^verbatim>\<open>max\<close>) is exact as long as the result fits the 28 significant
  digits of the default decimal context. Quantities are therefore embedded as rationals;
  the overflow of the context precision is outside this development.
\<close>

type_synonym dec = rat

datatype error =
    DivisionByZero
  | InvalidOperation
  | ZeroDivisionError
  | InsufficientBalance
  | InsufficientIssuanceRights

text \<open>
  Division of decimals raises when the divisor is zero: \<^verbatim>\<open>InvalidOperation\<close> for \<^verbatim>\<open>0 / 0\<close>,
  \<^verbatim>\<open>DivisionByZero\<close> otherwise.
\<close>

definition dec_div :: "dec \<Rightarrow> dec \<Rightarrow> error + dec" where
  "dec_div x y =
     (if y = 0 then (if x = 0 then Inl InvalidOperation else Inl DivisionByZero)
      else Inr (x / y))"

text \<open>
  Modelled from the spec: \<^verbatim>\<open>HavvenManager.round_decimal\<close> (module \<^verbatim>\<open>managers\<close>) is called by
  the agents but its source is missing. The specification fixes it as the one canonical
  rounding rule, ``round-half-even to a fixed decimal precision''. The number of decimal
  places is not given, so it is the parameter \<open>prec\<close> of everything that rounds.
\<close>

definition round_half_even :: "rat \<Rightarrow> int" where
  "round_half_even x =
     (let f = \<lfloor>x\<rfloor>; d = x - of_int f
      in if d < 1 / 2 then f
         else if 1 / 2 < d then f + 1
         else if even f then f else f + 1)"

definition round_decimal :: "nat \<Rightarrow> dec \<Rightarrow> dec" where
  "round_decimal prec v = of_int (round_half_even (v * 10 ^ prec)) / 10 ^ prec"

text \<open>A quantity is on the grid when it is a whole number of quanta \<open>1 / 10 ^ prec\<close>.\<close>

definition on_grid :: "nat \<Rightarrow> dec \<Rightarrow> bool" where
  "on_grid prec v = (of_int \<lfloor>v * 10 ^ prec\<rfloor> = v * 10 ^ prec)"

section \<open>The market player (\<^verbatim>\<open>agents/marketplayer.py\<close>)\<close>

text \<open>
  The balances of a \<^verbatim>\<open>MarketPlayer\<close>, the quantities tied up in its open orders, and the
  wealth it remembers. Its lists of orders and trade records hold objects of the order book
  module, which is not part of the sources; they live in the state of the order books.
\<close>

record market_player =
  fiat :: dec
  havvens :: dec
  nomins :: dec
  escrowed_havvens :: dec
  issued_nomins :: dec
  unavailable_fiat :: dec
  unavailable_havvens :: dec
  unavailable_nomins :: dec
  initial_wealth :: dec

text \<open>
  The three properties \<^verbatim>\<open>available_fiat\<close>, \<^verbatim>\<open>available_havvens\<close> and \<^verbatim>\<open>available_nomins\<close>:
  each rounds the difference of the balance and the reserved quantity.
\<close>

definition available_fiat :: "nat \<Rightarrow> market_player \<Rightarrow> dec" where
  "available_fiat prec a = round_decimal prec (fiat a - unavailable_fiat a)"

definition available_havvens :: "nat \<Rightarrow> market_player \<Rightarrow> dec" where
  "available_havvens prec a = round_decimal prec (havvens a - unavailable_havvens a)"

definition available_nomins :: "nat \<Rightarrow> market_player \<Rightarrow> dec" where
  "available_nomins prec a = round_decimal prec (nomins a - unavailable_nomins a)"

text \<open>
  The quoted currency of a book is looked up by name, \<^verbatim>\<open>available_{book.quoted}\<close>; the
  names are those of the three assets.
\<close>

datatype asset = Fiat | Havvens | Nomins

definition available :: "nat \<Rightarrow> asset \<Rightarrow> market_player \<Rightarrow> dec" where
  "available prec X a =
     (case X of
        Fiat \<Rightarrow> available_fiat prec a
      | Havvens \<Rightarrow> available_havvens prec a
      | Nomins \<Rightarrow> available_nomins prec a)"

definition balance :: "asset \<Rightarrow> market_player \<Rightarrow> dec" where
  "balance X a = (case X of Fiat \<Rightarrow> fiat a | Havvens \<Rightarrow> havvens a | Nomins \<Rightarrow> nomins a)"

definition unavailable :: "asset \<Rightarrow> market_player \<Rightarrow> dec" where
  "unavailable X a =
     (case X of
        Fiat \<Rightarrow> unavailable_fiat a
      | Havvens \<Rightarrow> unavailable_havvens a
      | Nomins \<Rightarrow> unavailable_nomins a)"

text \<open>
  \<^verbatim>\<open>wealth\<close> values the player's basket through the model's \<^verbatim>\<open>fiat_value\<close>, called with
  the havvens (free and escrowed), the net nomins and the fiat. The valuation \<open>fv\<close> belongs
  to the model and is a parameter here.
\<close>

definition wealth :: "(dec \<Rightarrow> dec \<Rightarrow> dec \<Rightarrow> dec) \<Rightarrow> market_player \<Rightarrow> dec" where
  "wealth fv a = fv (havvens a + escrowed_havvens a) (nomins a - issued_nomins a) (fiat a)"

definition reset_initial_wealth ::
  "(dec \<Rightarrow> dec \<Rightarrow> dec \<Rightarrow> dec) \<Rightarrow> market_player \<Rightarrow> dec \<times> market_player" where
  "reset_initial_wealth fv a = (initial_wealth a, a\<lparr>initial_wealth := wealth fv a\<rparr>)"

definition profit :: "(dec \<Rightarrow> dec \<Rightarrow> dec \<Rightarrow> dec) \<Rightarrow> market_player \<Rightarrow> dec" where
  "profit fv a = wealth fv a - initial_wealth a"

definition profit_fraction ::
  "nat \<Rightarrow> (dec \<Rightarrow> dec \<Rightarrow> dec \<Rightarrow> dec) \<Rightarrow> market_player \<Rightarrow> error + dec" where
  "profit_fraction prec fv a =
     (if round_decimal prec (initial_wealth a) \<noteq> 0
      then (case dec_div (profit fv a) (initial_wealth a) of
              Inl e \<Rightarrow> Inl e
            | Inr r \<Rightarrow> Inr (round_decimal prec r))
      else Inr 0)"

definition round_values :: "nat \<Rightarrow> market_player \<Rightarrow> market_player" where
  "round_values prec a =
     a\<lparr>nomins := round_decimal prec (nomins a),
       fiat := round_decimal prec (fiat a),
       havvens := round_decimal prec (havvens a)\<rparr>"

subsection \<open>Selling the quoted currency\<close>

text \<open>
  The players are objects shared between the agents and the markets; they are kept in a store
  indexed by \<^verbatim>\<open>unique_id\<close>, next to the state \<open>'b\<close> of the order books.
\<close>

record 'b exchange =
  players :: "nat \<Rightarrow> market_player"
  book_state :: 'b

text \<open>
  The order book module (\<^verbatim>\<open>core.orderbook\<close>) is not part of the sources. The operations
  \<^verbatim>\<open>_sell_quoted\<close> calls on a book and on the bids it returns are the fields of this record;
  \<open>'o\<close> is the type of an order.
\<close>

record ('b, 'o) order_book =
  quoted :: asset
  lowest_ask_quantity :: "'b exchange \<Rightarrow> dec"
  lowest_ask_price :: "'b exchange \<Rightarrow> dec"
  asks :: "'b exchange \<Rightarrow> 'o list"
  buy :: "dec \<Rightarrow> nat \<Rightarrow> 'b exchange \<Rightarrow> 'o option \<times> 'b exchange"
  bid :: "dec \<Rightarrow> dec \<Rightarrow> nat \<Rightarrow> 'b exchange \<Rightarrow> 'o option \<times> 'b exchange"
  active :: "'o \<Rightarrow> 'b exchange \<Rightarrow> bool"
  cancel :: "'o \<Rightarrow> 'b exchange \<Rightarrow> 'b exchange"

text \<open>
  The loop of \<^verbatim>\<open>_sell_quoted\<close>, entered with the last bid and the quantity sold so far. It
  runs while the bid was filled, less than \<open>quantity\<close> is sold and \<^verbatim>\<open>len(book.asks) == 0\<close>.
  Nothing bounds its iterations, so it is a partial function: \<open>None\<close> is the loop that never
  leaves.
\<close>

partial_function (option) sell_quoted_loop ::
  "nat \<Rightarrow> ('b, 'o) order_book \<Rightarrow> nat \<Rightarrow> dec \<Rightarrow> 'o option \<Rightarrow> dec \<Rightarrow> 'b exchange
     \<Rightarrow> (error + 'o option \<times> dec \<times> 'b exchange) option" where
  "sell_quoted_loop prec book self quantity bd total_sold w =
     (if (case bd of None \<Rightarrow> False | Some b \<Rightarrow> \<not> active book b w)
         \<and> total_sold < quantity \<and> length (asks book w) = 0
      then (case dec_div (min (quantity - total_sold) (lowest_ask_quantity book w))
                         (lowest_ask_price book w) of
              Inl e \<Rightarrow> Some (Inl e)
            | Inr r \<Rightarrow>
                (let next_qty = round_decimal prec r;
                     pre_sold = available prec (quoted book) (players w self);
                     res = buy book next_qty self w
                 in sell_quoted_loop prec book self quantity (fst res)
                      (total_sold + (pre_sold - available prec (quoted book) (players (snd res) self)))
                      (snd res)))
      else Some (Inr (bd, total_sold, w)))"

declare sell_quoted_loop.simps [code]

text \<open>
  \<^verbatim>\<open>_sell_quoted\<close>: cap the quantity at the available quoted balance, return no order below
  the threshold \<^verbatim>\<open>Dec('0.0005')\<close>, buy once, loop, and bid for what is still unsold at the
  lowest ask price.
\<close>

definition sell_quoted ::
  "nat \<Rightarrow> ('b, 'o) order_book \<Rightarrow> nat \<Rightarrow> dec \<Rightarrow> 'b exchange
     \<Rightarrow> (error + 'o option \<times> 'b exchange) option" where
  "sell_quoted prec book self requested w =
     (let remaining_quoted = available prec (quoted book) (players w self);
          quantity = min requested remaining_quoted
      in if quantity < 5 / 10000 then Some (Inr (None, w))
         else
           (case dec_div (min quantity (lowest_ask_quantity book w)) (lowest_ask_price book w) of
              Inl e \<Rightarrow> Some (Inl e)
            | Inr r \<Rightarrow>
                (let next_qty = round_decimal prec r;
                     pre_sold = available prec (quoted book) (players w self);
                     res = buy book next_qty self w;
                     total_sold = pre_sold - available prec (quoted book) (players (snd res) self)
                 in case sell_quoted_loop prec book self quantity (fst res) total_sold (snd res) of
                      None \<Rightarrow> None
                    | Some (Inl e) \<Rightarrow> Some (Inl e)
                    | Some (Inr (bd, sold, w1)) \<Rightarrow>
                        if sold < quantity
                        then (let w2 = (case bd of None \<Rightarrow> w1 | Some b \<Rightarrow> cancel book b w1);
                                  price = lowest_ask_price book w2
                              in case dec_div (quantity - sold) price of
                                   Inl e \<Rightarrow> Some (Inl e)
                                 | Inr r2 \<Rightarrow>
                                     Some (Inr (bid book price (round_decimal prec r2) self w2)))
                        else Some (Inr (bd, w1)))))"

text \<open>The three markets of the model's market manager, and the wrappers that pick one.\<close>

record ('b, 'o) market_manager =
  havven_fiat_market :: "('b, 'o) order_book"
  nomin_fiat_market :: "('b, 'o) order_book"
  havven_nomin_market :: "('b, 'o) order_book"

definition sell_nomins_for_havvens ::
  "nat \<Rightarrow> ('b, 'o) market_manager \<Rightarrow> nat \<Rightarrow> dec \<Rightarrow> 'b exchange
     \<Rightarrow> (error + 'o option \<times> 'b exchange) option" where
  "sell_nomins_for_havvens prec mm self quantity w =
     sell_quoted prec (havven_nomin_market mm) self quantity w"

definition sell_fiat_for_havvens ::
  "nat \<Rightarrow> ('b, 'o) market_manager \<Rightarrow> nat \<Rightarrow> dec \<Rightarrow> 'b exchange
     \<Rightarrow> (error + 'o option \<times> 'b exchange) option" where
  "sell_fiat_for_havvens prec mm self quantity w =
     sell_quoted prec (havven_fiat_market mm) self quantity w"

definition sell_fiat_for_nomins ::
  "nat \<Rightarrow> ('b, 'o) market_manager \<Rightarrow> nat \<Rightarrow> dec \<Rightarrow> 'b exchange
     \<Rightarrow> (error + 'o option \<times> 'b exchange) option" where
  "sell_fiat_for_nomins prec mm self quantity w =
     sell_quoted prec (nomin_fiat_market mm) self quantity w"

subsection \<open>Transfers, issuance and burning\<close>

text \<open>
  Modelled from the spec: the ledger transfer behind \<^verbatim>\<open>transfer_fiat_to\<close>,
  \<^verbatim>\<open>transfer_havvens_to\<close> and \<^verbatim>\<open>transfer_nomins_to\<close> (the market manager's
  \<^verbatim>\<open>transfer_fiat\<close>, \<^verbatim>\<open>transfer_havvens\<close>, \<^verbatim>\<open>transfer_nomins\<close>) is missing from the sources.
  The specification: ``fails with InsufficientBalance if \<open>qty > available_X(from)\<close>;
  otherwise atomically decrements \<open>from.balance_X\<close> and increments \<open>to.balance_X\<close>''.
  Sender and recipient are objects of the store, and may be the same object. The balances
  move by exactly \<open>qty\<close>, as the sentence says; the rounding the specification asks of
  every mutation is the identity on quantities that are on the grid.
\<close>

definition add_balance :: "asset \<Rightarrow> dec \<Rightarrow> market_player \<Rightarrow> market_player" where
  "add_balance X q a =
     (case X of
        Fiat \<Rightarrow> a\<lparr>fiat := fiat a + q\<rparr>
      | Havvens \<Rightarrow> a\<lparr>havvens := havvens a + q\<rparr>
      | Nomins \<Rightarrow> a\<lparr>nomins := nomins a + q\<rparr>)"

definition transfer ::
  "nat \<Rightarrow> asset \<Rightarrow> nat \<Rightarrow> nat \<Rightarrow> dec \<Rightarrow> (nat \<Rightarrow> market_player)
     \<Rightarrow> error + (nat \<Rightarrow> market_player)" where
  "transfer prec X sender recipient qty st =
     (if available prec X (st sender) < qty then Inl InsufficientBalance
      else (let st1 = st(sender := add_balance X (- qty) (st sender))
            in Inr (st1(recipient := add_balance X qty (st1 recipient)))))"

text \<open>
  The player's methods return the manager's answer: \<^verbatim>\<open>True\<close> on success, and a failed
  transfer is reported as \<^verbatim>\<open>False\<close> with the store as it was.
\<close>

definition transfer_to ::
  "nat \<Rightarrow> asset \<Rightarrow> nat \<Rightarrow> nat \<Rightarrow> dec \<Rightarrow> (nat \<Rightarrow> market_player)
     \<Rightarrow> bool \<times> (nat \<Rightarrow> market_player)" where
  "transfer_to prec X self recipient v st =
     (case transfer prec X self recipient v st of
        Inl e \<Rightarrow> (False, st)
      | Inr st' \<Rightarrow> (True, st'))"

definition transfer_fiat_to ::
  "nat \<Rightarrow> nat \<Rightarrow> nat \<Rightarrow> dec \<Rightarrow> (nat \<Rightarrow> market_player) \<Rightarrow> bool \<times> (nat \<Rightarrow> market_player)" where
  "transfer_fiat_to prec self recipient v st = transfer_to prec Fiat self recipient v st"

definition transfer_havvens_to ::
  "nat \<Rightarrow> nat \<Rightarrow> nat \<Rightarrow> dec \<Rightarrow> (nat \<Rightarrow> market_player) \<Rightarrow> bool \<times> (nat \<Rightarrow> market_player)" where
  "transfer_havvens_to prec self recipient v st = transfer_to prec Havvens self recipient v st"

definition transfer_nomins_to ::
  "nat \<Rightarrow> nat \<Rightarrow> nat \<Rightarrow> dec \<Rightarrow> (nat \<Rightarrow> market_player) \<Rightarrow> bool \<times> (nat \<Rightarrow> market_player)" where
  "transfer_nomins_to prec self recipient v st = transfer_to prec Nomins self recipient v st"


text \<open>
  Modelled from the spec: the mint behind \<^verbatim>\<open>issue_nomins\<close> and \<^verbatim>\<open>burn_nomins\<close>
  (\<^verbatim>\<open>model.mint\<close>) is missing from the sources. The specification:
  \<open>max_issuance_rights(a) = escrowed_collateral(a) \<times> price \<times> utilisation_ratio_max\<close>;
  issue ``fails with InsufficientIssuanceRights if
  \<open>qty > max_issuance_rights(account) - issued_stable(account)\<close>; otherwise increases both
  \<open>stable\<close> and \<open>issued_stable\<close> by \<open>qty\<close>''; burn ``fails with InsufficientBalance if
  \<open>qty > available_stable\<close> or \<open>qty > issued_stable\<close>; decreases both by \<open>qty\<close>''.
  The oracle price of collateral in the stable asset and the utilisation ratio are the
  fields of the mint. Both balances move by exactly \<open>qty\<close>.
\<close>

record mint =
  havven_nomin_price :: dec
  utilisation_ratio_max :: dec

definition max_issuance_rights :: "mint \<Rightarrow> market_player \<Rightarrow> dec" where
  "max_issuance_rights m a = escrowed_havvens a * havven_nomin_price m * utilisation_ratio_max m"

definition mint_issue_nomins :: "mint \<Rightarrow> market_player \<Rightarrow> dec \<Rightarrow> error + market_player" where
  "mint_issue_nomins m a qty =
     (if max_issuance_rights m a - issued_nomins a < qty then Inl InsufficientIssuanceRights
      else Inr (a\<lparr>nomins := nomins a + qty, issued_nomins := issued_nomins a + qty\<rparr>))"




section \<open>The model (\<^verbatim>\<open>simulation/model.py\<close>)\<close>

text \<open>
  The settings object of the model (\<^verbatim>\<open>HavvenSettings\<close> of the missing \<^verbatim>\<open>config\<close> module),
  with the fields the model reads and writes. \<open>curits\<close> is the pool the endowments are
  drawn from.
\<close>

record havven_settings =
  num_agents :: int
  max_fiat :: dec
  utilisation_max :: dec
  match_on_order :: bool
  curits :: dec

text \<open>
  The state of the model: the step counter, the settings, the \<^verbatim>\<open>curits\<close> attribute of every
  agent (indexed by \<^verbatim>\<open>unique_id\<close>), and the state \<open>'w\<close> of its collaborators: the
  scheduled agents, the trade manager's three books, the fee manager and the data collector.
\<close>

record 'w havven =
  time :: int
  settings :: havven_settings
  agent_curits :: "nat \<Rightarrow> dec"
  world :: 'w

text \<open>
  \<^verbatim>\<open>fiat_value\<close>, over the two conversions of the fee manager. It is a valuation of three
  quantities, as the one \<^verbatim>\<open>wealth\<close> calls; this module names the collateral \<^verbatim>\<open>curits\<close>
  where the market player says \<^verbatim>\<open>havvens\<close>.
\<close>

definition fiat_value :: "(dec \<Rightarrow> dec) \<Rightarrow> (dec \<Rightarrow> dec) \<Rightarrow> dec \<Rightarrow> dec \<Rightarrow> dec \<Rightarrow> dec" where
  "fiat_value cur_to_fiat nom_to_fiat cur nom fi = cur_to_fiat cur + nom_to_fiat nom + fi"


text \<open>
  The three markets of the trade manager, and the calls a step makes on the model's
  collaborators, each a transformer of their state.
\<close>

datatype market = Cur_nom_market | Cur_fiat_market | Nom_fiat_market

record 'w collaborators =
  schedule_step :: "'w \<Rightarrow> 'w"
  market_match :: "market \<Rightarrow> 'w \<Rightarrow> 'w"
  distribute_fees :: "'w \<Rightarrow> 'w"
  collect :: "'w \<Rightarrow> 'w"

text \<open>
  \<^verbatim>\<open>Havven.step\<close>. \<^verbatim>\<open>FeeConfig.fee_period\<close> comes from the missing \<^verbatim>\<open>config\<close> module and is
  a parameter. The modulo raises \<^verbatim>\<open>ZeroDivisionError\<close> when the period is zero; the step
  then stops with the state reached so far, and the counter is not advanced.
\<close>

definition step :: "'w collaborators \<Rightarrow> int \<Rightarrow> 'w havven \<Rightarrow> error option \<times> 'w havven" where
  "step env fee_period h =
     (let h1 = h\<lparr>world := schedule_step env (world h)\<rparr>;
          h2 = (if \<not> match_on_order (settings h1)
                then h1\<lparr>world := market_match env Nom_fiat_market
                                   (market_match env Cur_fiat_market
                                     (market_match env Cur_nom_market (world h1)))\<rparr>
                else h1)
      in if fee_period = 0 then (Some ZeroDivisionError, h2)
         else (let h3 = (if time h2 mod fee_period = 0
                         then h2\<lparr>world := distribute_fees env (world h2)\<rparr>
                         else h2);
                   h4 = h3\<lparr>world := collect env (world h3)\<rparr>
               in (None, h4\<lparr>time := time h4 + 1\<rparr>)))"

text \<open>Running \<open>n\<close> steps in a row; an exception ends the run.\<close>

fun run :: "'w collaborators \<Rightarrow> int \<Rightarrow> nat \<Rightarrow> 'w havven \<Rightarrow> error option \<times> 'w havven" where
  "run env fee_period 0 h = (None, h)"
| "run env fee_period (Suc n) h =
     (case step env fee_period h of
        (Some e, h') \<Rightarrow> (Some e, h')
      | (None, h') \<Rightarrow> run env fee_period n h')"

text \<open>
  To observe which calls a step makes and in which order, the collaborators can be
  instantiated by a recorder whose state is the list of the calls made so far.
\<close>

datatype call = Schedule_step | Match market | Distribute_fees | Collect

definition recorder :: "call list collaborators" where
  "recorder =
     \<lparr>schedule_step = (\<lambda>w. w @ [Schedule_step]),
      market_match = (\<lambda>m w. w @ [Match m]),
      distribute_fees = (\<lambda>w. w @ [Distribute_fees]),
      collect = (\<lambda>w. w @ [Collect])\<rparr>"

section \<open>A limit order book\<close>

text \<open>
  Modelled from the spec: a limit order book with the operations \<^verbatim>\<open>_sell_quoted\<close> calls; the
  order book module is missing from the sources. Following the specification, for a book
  in immediate-match mode: a bid reserves \<open>price \<times> qty\<close> of the quoted asset and
  fails when the available balance is short; it crosses the resting asks priced at or below its limit, best price first, each
  trade at the resting ask's price and for the minimum of the two remaining quantities; an
  order whose remaining quantity falls below 0.0005 counts as filled and its residual
  reservation is released; what is left of the bid rests at its limit price, in price-time
  order. A market buy bids at the price of the last ask level it has to touch, and does
  nothing on an empty ask side. Cancelling removes a resting bid and releases its
  reservation, and leaves everything as it is for an order that is not resting. The fee
  rate is 0. The best ask price and quantity of an empty ask side are 0, so that dividing
  by the price raises.
\<close>

record resting_order =
  order_id :: nat
  owner :: nat
  limit_price :: dec
  remaining :: dec

record book_data =
  ask_queue :: "resting_order list"
  bid_queue :: "resting_order list"
  next_id :: nat

definition add_unavailable :: "asset \<Rightarrow> dec \<Rightarrow> market_player \<Rightarrow> market_player" where
  "add_unavailable X q a =
     (case X of
        Fiat \<Rightarrow> a\<lparr>unavailable_fiat := unavailable_fiat a + q\<rparr>
      | Havvens \<Rightarrow> a\<lparr>unavailable_havvens := unavailable_havvens a + q\<rparr>
      | Nomins \<Rightarrow> a\<lparr>unavailable_nomins := unavailable_nomins a + q\<rparr>)"

definition settle ::
  "asset \<Rightarrow> asset \<Rightarrow> nat \<Rightarrow> nat \<Rightarrow> dec \<Rightarrow> dec \<Rightarrow> (nat \<Rightarrow> market_player) \<Rightarrow> (nat \<Rightarrow> market_player)" where
  "settle B Q buyer seller price t ps =
     (let ps1 = ps(buyer := add_balance B t (add_balance Q (- (t * price)) (ps buyer)))
      in ps1(seller := add_unavailable B (- t)
                         (add_balance B (- t) (add_balance Q (t * price) (ps1 seller)))))"

fun fill_asks ::
  "asset \<Rightarrow> asset \<Rightarrow> nat \<Rightarrow> dec \<Rightarrow> dec \<Rightarrow> resting_order list \<Rightarrow> (nat \<Rightarrow> market_player)
     \<Rightarrow> resting_order list \<times> dec \<times> (nat \<Rightarrow> market_player)" where
  "fill_asks B Q buyer limit wanted [] ps = ([], wanted, ps)"
| "fill_asks B Q buyer limit wanted (a # rest) ps =
     (if wanted < 5 / 10000 \<or> limit < limit_price a then (a # rest, wanted, ps)
      else (let t = min wanted (remaining a);
                ps1 = settle B Q buyer (owner a) (limit_price a) t ps
            in if remaining a - t < 5 / 10000
               then fill_asks B Q buyer limit (wanted - t) rest
                      (ps1(owner a := add_unavailable B (- (remaining a - t)) (ps1 (owner a))))
               else (a\<lparr>remaining := remaining a - t\<rparr> # rest, wanted - t, ps1)))"

fun insert_bid :: "resting_order \<Rightarrow> resting_order list \<Rightarrow> resting_order list" where
  "insert_bid b [] = [b]"
| "insert_bid b (c # cs) =
     (if limit_price c < limit_price b then b # c # cs else c # insert_bid b cs)"

definition book_bid ::
  "nat \<Rightarrow> asset \<Rightarrow> asset \<Rightarrow> dec \<Rightarrow> dec \<Rightarrow> nat \<Rightarrow> book_data exchange
     \<Rightarrow> nat option \<times> book_data exchange" where
  "book_bid prec B Q price qty buyer w =
     (if qty < 5 / 10000 then (None, w)
      else if available prec Q (players w buyer) < price * qty then (None, w)
      else (let bk = book_state w;
                filled = fill_asks B Q buyer price qty (ask_queue bk) (players w);
                unfilled = fst (snd filled);
                ps = snd (snd filled);
                oid = next_id bk
            in if unfilled < 5 / 10000
               then (Some oid,
                     \<lparr>players = ps,
                      book_state = bk\<lparr>ask_queue := fst filled, next_id := oid + 1\<rparr>\<rparr>)
               else (Some oid,
                     \<lparr>players = ps(buyer := add_unavailable Q (price * unfilled) (ps buyer)),
                      book_state = bk\<lparr>ask_queue := fst filled,
                        bid_queue := insert_bid
                          \<lparr>order_id = oid, owner = buyer, limit_price = price, remaining = unfilled\<rparr>
                          (bid_queue bk),
                        next_id := oid + 1\<rparr>\<rparr>)))"

fun last_touched_price :: "dec \<Rightarrow> resting_order list \<Rightarrow> dec option \<Rightarrow> dec option" where
  "last_touched_price wanted [] p = p"
| "last_touched_price wanted (a # rest) p =
     (if wanted \<le> remaining a then Some (limit_price a)
      else last_touched_price (wanted - remaining a) rest (Some (limit_price a)))"

definition book_buy ::
  "nat \<Rightarrow> asset \<Rightarrow> asset \<Rightarrow> dec \<Rightarrow> nat \<Rightarrow> book_data exchange \<Rightarrow> nat option \<times> book_data exchange" where
  "book_buy prec B Q qty buyer w =
     (case last_touched_price qty (ask_queue (book_state w)) None of
        None \<Rightarrow> (None, w)
      | Some price \<Rightarrow> book_bid prec B Q price qty buyer w)"

definition book_cancel :: "asset \<Rightarrow> nat \<Rightarrow> book_data exchange \<Rightarrow> book_data exchange" where
  "book_cancel Q oid w =
     (case filter (\<lambda>b. order_id b = oid) (bid_queue (book_state w)) of
        [] \<Rightarrow> w
      | b # _ \<Rightarrow>
          \<lparr>players = (players w)(owner b :=
              add_unavailable Q (- (limit_price b * remaining b)) (players w (owner b))),
           book_state = (book_state w)\<lparr>bid_queue :=
              filter (\<lambda>c. order_id c \<noteq> oid) (bid_queue (book_state w))\<rparr>\<rparr>)"

definition limit_book :: "nat \<Rightarrow> asset \<Rightarrow> asset \<Rightarrow> (book_data, nat) order_book" where
  "limit_book prec B Q =
     \<lparr>quoted = Q,
      lowest_ask_quantity = (\<lambda>w. case ask_queue (book_state w) of [] \<Rightarrow> 0 | a # _ \<Rightarrow> remaining a),
      lowest_ask_price = (\<lambda>w. case ask_queue (book_state w) of [] \<Rightarrow> 0 | a # _ \<Rightarrow> limit_price a),
      asks = (\<lambda>w. map order_id (ask_queue (book_state w))),
      buy = book_buy prec B Q,
      bid = book_bid prec B Q,
      active = (\<lambda>oid w. oid \<in> set (map order_id (bid_queue (book_state w)))),
      cancel = book_cancel Q\<rparr>"

section \<open>Example states\<close>

text \<open>Concrete players, mints and models at which the theorems below are instantiated.\<close>

definition player0 :: market_player where
  "player0 = \<lparr>fiat = 0, havvens = 0, nomins = 0, escrowed_havvens = 0, issued_nomins = 0,
     unavailable_fiat = 0, unavailable_havvens = 0, unavailable_nomins = 0, initial_wealth = 0\<rparr>"

definition player1 :: market_player where
  "player1 = \<lparr>fiat = 5 / 4, havvens = 3, nomins = 7 / 2, escrowed_havvens = 0, issued_nomins = 0,
     unavailable_fiat = 1 / 4, unavailable_havvens = 1, unavailable_nomins = 1 / 2,
     initial_wealth = 0\<rparr>"



definition havven0 :: "call list havven" where
  "havven0 = \<lparr>time = 1,
     settings = \<lparr>num_agents = 2, max_fiat = 1000, utilisation_max = 1, match_on_order = False,
                 curits = 100\<rparr>,
     agent_curits = (\<lambda>i. 0), world = []\<rparr>"

text \<open>A book on which nothing rests and nothing trades, and a player holding dust.\<close>

definition idle_book :: "asset \<Rightarrow> (unit, nat) order_book" where
  "idle_book X =
     \<lparr>quoted = X,
      lowest_ask_quantity = (\<lambda>w. 0),
      lowest_ask_price = (\<lambda>w. 1),
      asks = (\<lambda>w. []),
      buy = (\<lambda>q a w. (None, w)),
      bid = (\<lambda>p q a w. (None, w)),
      active = (\<lambda>b w. False),
      cancel = (\<lambda>b w. w)\<rparr>"

definition idle_markets :: "(unit, nat) market_manager" where
  "idle_markets =
     \<lparr>havven_fiat_market = idle_book Fiat,
      nomin_fiat_market = idle_book Fiat,
      havven_nomin_market = idle_book Nomins\<rparr>"

definition dust_exchange :: "unit exchange" where
  "dust_exchange =
     \<lparr>players = (\<lambda>i. player0\<lparr>fiat := 1 / 10000, nomins := 3 / 10000\<rparr>), book_state = ()\<rparr>"



text \<open>
  A havven--fiat book with two asks of player 1, 5 havvens at 10 and 3 havvens at 11, and a
  buyer, player 0, holding 1000 fiat.
\<close>

definition two_levels :: "book_data exchange" where
  "two_levels =
     \<lparr>players = (\<lambda>i. if i = 0 then player0\<lparr>fiat := 1000\<rparr>
                     else player0\<lparr>havvens := 8, unavailable_havvens := 8\<rparr>),
      book_state =
        \<lparr>ask_queue = [\<lparr>order_id = 0, owner = 1, limit_price = 10, remaining = 5\<rparr>,
                      \<lparr>order_id = 1, owner = 1, limit_price = 11, remaining = 3\<rparr>],
         bid_queue = [], next_id = 2\<rparr>\<rparr>"

definition first_buy :: "nat option \<times> book_data exchange" where
  "first_buy = buy (limit_book 8 Havvens Fiat) (1 / 2) 0 two_levels"

section \<open>Properties of the rounding rule\<close>

lemma round_half_even_of_int: "round_half_even (of_int n) = n"
  by (simp add: round_half_even_def)

lemma round_half_even_close: "\<bar>of_int (round_half_even x) - x\<bar> \<le> 1 / 2"
  unfolding round_half_even_def Let_def
  by (auto simp: abs_if not_less) linarith+

lemma round_decimal_zero: "round_decimal prec 0 = 0"
  using round_half_even_of_int [of 0] by (simp add: round_decimal_def)

lemma round_decimal_on_grid:
  assumes "on_grid prec v"
  shows "round_decimal prec v = v"
proof -
  define n where "n = \<lfloor>v * 10 ^ prec\<rfloor>"
  have eq: "v * 10 ^ prec = of_int n"
    using assms unfolding on_grid_def n_def by (rule sym)
  have "round_half_even (v * 10 ^ prec) = n"
    unfolding eq by (rule round_half_even_of_int)
  then have "round_decimal prec v = v * 10 ^ prec / 10 ^ prec"
    unfolding round_decimal_def eq by simp
  then show ?thesis by simp
qed

lemma round_decimal_close: "\<bar>round_decimal prec v - v\<bar> \<le> 1 / (2 * 10 ^ prec)"
proof -
  define r :: rat where "r = of_int (round_half_even (v * 10 ^ prec))"
  define c :: rat where "c = 10 ^ prec"
  have pos: "0 < c" by (simp add: c_def)
  have "round_decimal prec v - v = (r - v * c) / c"
    using pos by (simp add: round_decimal_def r_def c_def field_simps)
  then have "\<bar>round_decimal prec v - v\<bar> = \<bar>r - v * c\<bar> / c"
    using pos by (simp add: abs_divide)
  also have "\<dots> \<le> (1 / 2) / c"
  proof (rule divide_right_mono)
    show "\<bar>r - v * c\<bar> \<le> 1 / 2"
      unfolding r_def c_def by (rule round_half_even_close)
    show "0 \<le> c" using pos by simp
  qed
  finally show ?thesis by (simp add: c_def)
qed

text \<open>
  C2. The claim reads: for each asset, the available balance equals the balance minus the
  reserved quantity exactly. The properties round the difference, so the equality holds up
  to half a quantum, and exactly when the difference is on the grid.
\<close>

theorem available_is_rounded_difference:
  "\<bar>available_fiat prec a - (fiat a - unavailable_fiat a)\<bar> \<le> 1 / (2 * 10 ^ prec)
   \<and> \<bar>available_havvens prec a - (havvens a - unavailable_havvens a)\<bar> \<le> 1 / (2 * 10 ^ prec)
   \<and> \<bar>available_nomins prec a - (nomins a - unavailable_nomins a)\<bar> \<le> 1 / (2 * 10 ^ prec)
   \<and> (on_grid prec (fiat a - unavailable_fiat a)
        \<longrightarrow> available_fiat prec a = fiat a - unavailable_fiat a)
   \<and> (on_grid prec (havvens a - unavailable_havvens a)
        \<longrightarrow> available_havvens prec a = havvens a - unavailable_havvens a)
   \<and> (on_grid prec (nomins a - unavailable_nomins a)
        \<longrightarrow> available_nomins prec a = nomins a - unavailable_nomins a)"
  unfolding available_fiat_def available_havvens_def available_nomins_def
  using round_decimal_close round_decimal_on_grid by blast

lemma available_fiat_inexact_at_every_precision:
  "available_fiat prec (player0\<lparr>fiat := 1 / (4 * 10 ^ prec)\<rparr>) = 0
   \<and> fiat (player0\<lparr>fiat := 1 / (4 * 10 ^ prec)\<rparr>)
       - unavailable_fiat (player0\<lparr>fiat := 1 / (4 * 10 ^ prec)\<rparr>) \<noteq> 0"
proof -
  have "round_half_even (1 / 4) = 0"
    by code_simp
  then show ?thesis
    by (simp add: available_fiat_def player0_def round_decimal_def)
qed

theorem available_fiat_not_exact:
  "available_fiat 8 (player0\<lparr>fiat := 1 / 10 ^ 9\<rparr>)
     \<noteq> fiat (player0\<lparr>fiat := 1 / 10 ^ 9\<rparr>) - unavailable_fiat (player0\<lparr>fiat := 1 / 10 ^ 9\<rparr>)"
  by code_simp

theorem available_is_rounded_difference_witness:
  "on_grid 2 (fiat player1 - unavailable_fiat player1)
   \<and> on_grid 2 (havvens player1 - unavailable_havvens player1)
   \<and> on_grid 2 (nomins player1 - unavailable_nomins player1)
   \<and> available_fiat 2 player1 = fiat player1 - unavailable_fiat player1
   \<and> available_havvens 2 player1 = havvens player1 - unavailable_havvens player1
   \<and> available_nomins 2 player1 = nomins player1 - unavailable_nomins player1"
proof -
  have g1: "on_grid 2 (fiat player1 - unavailable_fiat player1)" by code_simp
  have g2: "on_grid 2 (havvens player1 - unavailable_havvens player1)" by code_simp
  have g3: "on_grid 2 (nomins player1 - unavailable_nomins player1)" by code_simp
  from available_is_rounded_difference [of 2 player1] g1 g2 g3 show ?thesis by blast
qed

section \<open>Wealth and profit\<close>

text \<open>
  C4. Increasing the nomin balance and the issued nomins by the same quantity leaves
  \<^verbatim>\<open>wealth()\<close> unchanged, whatever the model's valuation: wealth values the net quantity
  \<open>nomins - issued_nomins\<close>.
\<close>

theorem wealth_issue_neutral:
  "wealth fv (a\<lparr>nomins := nomins a + q, issued_nomins := issued_nomins a + q\<rparr>) = wealth fv a"
  by (simp add: wealth_def)

lemma wealth_fiat_value_issue_neutral:
  "wealth (fiat_value c2f n2f) (a\<lparr>nomins := nomins a + q, issued_nomins := issued_nomins a + q\<rparr>)
     = wealth (fiat_value c2f n2f) a"
  by (simp add: wealth_def)

lemma mint_issue_wealth_neutral:
  "mint_issue_nomins m a q = Inr a' \<Longrightarrow> wealth fv a' = wealth fv a"
  by (auto simp: mint_issue_nomins_def wealth_def split: if_splits)

text \<open>
  C9. \<^verbatim>\<open>profit_fraction\<close> never raises: it returns 0 when the initial wealth rounds to
  zero, and the rounded quotient of the profit by the initial wealth otherwise; the
  division is only reached with a divisor that is not zero.
\<close>

theorem profit_fraction_total:
  "profit_fraction prec fv a =
     Inr (if round_decimal prec (initial_wealth a) = 0 then 0
          else round_decimal prec (profit fv a / initial_wealth a))"
proof (cases "round_decimal prec (initial_wealth a) = 0")
  case True
  then show ?thesis by (simp add: profit_fraction_def)
next
  case False
  then have "initial_wealth a \<noteq> 0"
    using round_decimal_zero [of prec] by auto
  with False show ?thesis by (simp add: profit_fraction_def dec_div_def)
qed

section \<open>Issuing and burning\<close>








section \<open>The endowment pool\<close>




section \<open>The model step\<close>

lemma step_batch_world:
  assumes "\<not> match_on_order (settings h)" and "fee_period \<noteq> 0"
  shows "world (snd (step env fee_period h)) =
           collect env
             ((if fee_period dvd time h then distribute_fees env else id)
               (market_match env Nom_fiat_market
                 (market_match env Cur_fiat_market
                   (market_match env Cur_nom_market (schedule_step env (world h))))))"
  using assms by (simp add: step_def Let_def mod_eq_0_iff_dvd)

lemma step_time: "fee_period \<noteq> 0 \<Longrightarrow> time (snd (step env fee_period h)) = time h + 1"
  by (simp add: step_def Let_def)

lemma step_settings: "settings (snd (step env fee_period h)) = settings h"
  by (simp add: step_def Let_def)

lemma step_no_error: "fee_period \<noteq> 0 \<Longrightarrow> fst (step env fee_period h) = None"
  by (simp add: step_def Let_def)

lemma step_zero_period:
  "fst (step env 0 h) = Some ZeroDivisionError \<and> time (snd (step env 0 h)) = time h"
  by (simp add: step_def Let_def)

lemma step_recorder_world:
  "world (snd (step recorder fee_period h)) =
     world h @ [Schedule_step]
       @ (if match_on_order (settings h) then []
          else [Match Cur_nom_market, Match Cur_fiat_market, Match Nom_fiat_market])
       @ (if fee_period = 0 then []
          else (if fee_period dvd time h then [Distribute_fees] else []) @ [Collect])"
  by (simp add: step_def Let_def recorder_def mod_eq_0_iff_dvd)

text \<open>
  C5. In batch-matching mode (\<open>match_on_order\<close> false) a step first lets the agents act,
  then matches the collateral--stable book, the collateral--fiat book and the stable--fiat
  book, in this order, and only then distributes fees, if it does.
\<close>

theorem batch_matching_order:
  assumes "\<not> match_on_order (settings h)"
  shows "world (snd (step recorder fee_period h)) =
           world h
             @ [Schedule_step, Match Cur_nom_market, Match Cur_fiat_market, Match Nom_fiat_market]
             @ (if fee_period = 0 then []
                else (if fee_period dvd time h then [Distribute_fees] else []) @ [Collect])"
  using assms by (simp add: step_recorder_world)

theorem batch_matching_order_witness:
  "\<not> match_on_order (settings havven0)
   \<and> world (snd (step recorder 1 havven0)) =
       [Schedule_step, Match Cur_nom_market, Match Cur_fiat_market, Match Nom_fiat_market,
        Distribute_fees, Collect]"
proof -
  have b: "\<not> match_on_order (settings havven0)" by (simp add: havven0_def)
  have t: "time havven0 = 1" "world havven0 = []" by (simp_all add: havven0_def)
  from batch_matching_order [OF b, of 1] b show ?thesis by (simp add: t)
qed

lemma run_Suc_end:
  "run env fee_period (Suc n) h =
     (case run env fee_period n h of
        (Some e, h') \<Rightarrow> (Some e, h')
      | (None, h') \<Rightarrow> step env fee_period h')"
proof (induction n arbitrary: h)
  case 0
  then show ?case by (simp split: prod.splits option.splits)
next
  case (Suc n)
  show ?case
  proof (cases "step env fee_period h")
    case (Pair r h')
    then show ?thesis
      using Suc.IH [of h']
      by (cases r)
        (simp_all del: run.simps(2)
          add: run.simps(2) [of _ _ "Suc n"] run.simps(2) [of _ _ n])
  qed
qed

lemma run_no_error: "fee_period \<noteq> 0 \<Longrightarrow> fst (run env fee_period n h) = None"
proof (induction n arbitrary: h)
  case 0
  then show ?case by simp
next
  case (Suc n)
  then show ?case
    using step_no_error [of fee_period env h]
    by (cases "step env fee_period h") (auto split: option.splits)
qed

lemma run_time: "fee_period \<noteq> 0 \<Longrightarrow> time (snd (run env fee_period n h)) = time h + int n"
proof (induction n arbitrary: h)
  case 0
  then show ?case by simp
next
  case (Suc n)
  then show ?case
    using step_no_error [of fee_period env h] step_time [of fee_period env h]
    by (cases "step env fee_period h") (auto split: option.splits)
qed

lemma dvd_time_iff:
  assumes "0 < fee_period"
  shows "(fee_period dvd 1 + int n) = (Suc n mod nat fee_period = 0)"
proof -
  have "fee_period = int (nat fee_period)" using assms by simp
  then have "(fee_period dvd 1 + int n) = (int (nat fee_period) dvd int (Suc n))"
    by (simp add: add.commute)
  also have "\<dots> = (nat fee_period dvd Suc n)"
    by (rule int_dvd_int_iff)
  finally show ?thesis by (simp add: mod_eq_0_iff_dvd)
qed

lemma run_recorder_count:
  assumes "0 < fee_period" and "time h = 1"
  shows "count_list (world (snd (run recorder fee_period n h))) Distribute_fees
           = count_list (world h) Distribute_fees + n div nat fee_period"
proof (induction n)
  case 0
  then show ?case by simp
next
  case (Suc n)
  obtain r h' where run_n: "run recorder fee_period n h = (r, h')"
    by (cases "run recorder fee_period n h")
  have nz: "fee_period \<noteq> 0" using assms by simp
  have r: "r = None"
    using run_no_error [OF nz, of recorder n h] run_n by simp
  have t: "time h' = 1 + int n"
    using run_time [OF nz, of recorder n h] run_n assms by simp
  have "run recorder fee_period (Suc n) h = step recorder fee_period h'"
    using run_n r by (simp add: run_Suc_end del: run.simps)
  then have "count_list (world (snd (run recorder fee_period (Suc n) h))) Distribute_fees
      = count_list (world h') Distribute_fees + (if fee_period dvd time h' then 1 else 0)"
    using nz by (simp add: step_recorder_world)
  also have "\<dots> = count_list (world h) Distribute_fees + n div nat fee_period
                 + (if Suc n mod nat fee_period = 0 then 1 else 0)"
    using Suc.IH run_n by (simp add: t dvd_time_iff [OF assms(1)])
  also have "\<dots> = count_list (world h) Distribute_fees + Suc n div nat fee_period"
    by (simp add: div_Suc)
  finally show ?case .
qed

text \<open>
  C6. A step distributes fees if and only if its step counter is a multiple of the fee
  period; a model started at step 1 has therefore distributed \<open>n div fee_period\<close> times
  after \<open>n\<close> steps, once every \<open>fee_period\<close> steps.
\<close>

theorem fee_distribution_period:
  "(fee_period \<noteq> 0 \<longrightarrow>
      (Distribute_fees \<in> set (world (snd (step recorder fee_period (h\<lparr>world := []\<rparr>)))))
        = (fee_period dvd time h))
   \<and> (0 < fee_period \<and> time h = 1 \<longrightarrow>
        count_list (world (snd (run recorder fee_period n (h\<lparr>world := []\<rparr>)))) Distribute_fees
          = n div nat fee_period)"
proof -
  have "(Distribute_fees \<in> set (world (snd (step recorder fee_period (h\<lparr>world := []\<rparr>)))))
            = (fee_period dvd time h)" if "fee_period \<noteq> 0"
    using that by (simp add: step_recorder_world)
  moreover have "count_list (world (snd (run recorder fee_period n (h\<lparr>world := []\<rparr>)))) Distribute_fees
              = n div nat fee_period" if "0 < fee_period" and "time h = 1"
    using run_recorder_count [OF that(1), of "h\<lparr>world := []\<rparr>" n] that(2) by simp
  ultimately show ?thesis by blast
qed

theorem fee_distribution_period_witness:
  "(3::int) \<noteq> 0 \<and> (0::int) < 3 \<and> time havven0 = 1
   \<and> Distribute_fees \<notin> set (world (snd (step recorder 3 (havven0\<lparr>world := []\<rparr>))))
   \<and> Distribute_fees \<in> set (world (snd (step recorder 3 (havven0\<lparr>time := 6, world := []\<rparr>))))
   \<and> count_list (world (snd (run recorder 3 7 (havven0\<lparr>world := []\<rparr>)))) Distribute_fees = 2"
proof -
  have t: "time havven0 = 1" by (simp add: havven0_def)
  from fee_distribution_period [of 3 havven0 7]
       fee_distribution_period [of 3 "havven0\<lparr>time := 6\<rparr>" 0]
  show ?thesis by (simp add: t)
qed


section \<open>Selling below the threshold\<close>

text \<open>
  C1. When the requested quantity, capped at the caller's available balance of the quoted
  currency, is below 0.0005, \<^verbatim>\<open>_sell_quoted\<close> and its three wrappers return no order and
  the state of the exchange (every player and the books) is the one they were called in.
\<close>

theorem sell_quoted_below_dust:
  "(min requested (available prec (quoted book) (players w self)) < 5 / 10000
      \<longrightarrow> sell_quoted prec book self requested w = Some (Inr (None, w)))
   \<and> (min requested (available prec (quoted (havven_nomin_market mm)) (players w self)) < 5 / 10000
      \<longrightarrow> sell_nomins_for_havvens prec mm self requested w = Some (Inr (None, w)))
   \<and> (min requested (available prec (quoted (havven_fiat_market mm)) (players w self)) < 5 / 10000
      \<longrightarrow> sell_fiat_for_havvens prec mm self requested w = Some (Inr (None, w)))
   \<and> (min requested (available prec (quoted (nomin_fiat_market mm)) (players w self)) < 5 / 10000
      \<longrightarrow> sell_fiat_for_nomins prec mm self requested w = Some (Inr (None, w)))"
  by (simp add: sell_quoted_def sell_nomins_for_havvens_def sell_fiat_for_havvens_def
      sell_fiat_for_nomins_def Let_def)

theorem sell_quoted_below_dust_witness:
  "min 1 (available 8 (quoted (idle_book Fiat)) (players dust_exchange 0)) < 5 / 10000
   \<and> min 1 (available 8 (quoted (havven_nomin_market idle_markets)) (players dust_exchange 0)) < 5 / 10000
   \<and> min 1 (available 8 (quoted (havven_fiat_market idle_markets)) (players dust_exchange 0)) < 5 / 10000
   \<and> min 1 (available 8 (quoted (nomin_fiat_market idle_markets)) (players dust_exchange 0)) < 5 / 10000
   \<and> sell_quoted 8 (idle_book Fiat) 0 1 dust_exchange = Some (Inr (None, dust_exchange))
   \<and> sell_nomins_for_havvens 8 idle_markets 0 1 dust_exchange = Some (Inr (None, dust_exchange))
   \<and> sell_fiat_for_havvens 8 idle_markets 0 1 dust_exchange = Some (Inr (None, dust_exchange))
   \<and> sell_fiat_for_nomins 8 idle_markets 0 1 dust_exchange = Some (Inr (None, dust_exchange))"
proof -
  have h1: "min 1 (available 8 (quoted (idle_book Fiat)) (players dust_exchange 0)) < 5 / 10000"
    by code_simp
  have h2: "min 1 (available 8 (quoted (havven_nomin_market idle_markets)) (players dust_exchange 0)) < 5 / 10000"
    by code_simp
  have h3: "min 1 (available 8 (quoted (havven_fiat_market idle_markets)) (players dust_exchange 0)) < 5 / 10000"
    by code_simp
  have h4: "min 1 (available 8 (quoted (nomin_fiat_market idle_markets)) (players dust_exchange 0)) < 5 / 10000"
    by code_simp
  from sell_quoted_below_dust [of 1 8 "idle_book Fiat" dust_exchange 0 idle_markets] h1 h2 h3 h4
  show ?thesis by blast
qed

section \<open>Transfers\<close>

lemma balance_add_balance [simp]: "balance X (add_balance X q a) = balance X a + q"
  by (cases X) (simp_all add: balance_def add_balance_def)

lemma unavailable_add_balance [simp]: "unavailable X (add_balance Y q a) = unavailable X a"
  by (cases X; cases Y) (simp_all add: unavailable_def add_balance_def)


lemma round_values_on_grid:
  assumes "on_grid prec (nomins a)" and "on_grid prec (fiat a)" and "on_grid prec (havvens a)"
  shows "round_values prec a = a"
  using assms by (simp add: round_values_def round_decimal_on_grid)








section \<open>Selling into a book with several ask levels\<close>

lemma sell_quoted_loop_asks_remain:
  "asks book w \<noteq> [] \<Longrightarrow>
     sell_quoted_loop prec book self quantity bd sold w = Some (Inr (bd, sold, w))"
  by (subst sell_quoted_loop.simps) simp

text \<open>
  C3. The claim reads: a market buy of the quoted currency for more than the resting ask
  liquidity consumes all resting asks level by level and then rests the shortfall as a bid.
  The loop of \<^verbatim>\<open>_sell_quoted\<close> runs only while no ask is left. So when asks remain after
  the first purchase and less than the quantity is sold, \<^verbatim>\<open>_sell_quoted\<close> buys nothing
  more: it cancels the bid and places one bid for the unsold quantity at the lowest ask
  price.
\<close>

theorem sell_quoted_one_level:
  assumes "quantity = min requested (available prec (quoted book) (players w self))"
    and "5 / 10000 \<le> quantity"
    and "lowest_ask_price book w \<noteq> 0"
    and "buy book (round_decimal prec (min quantity (lowest_ask_quantity book w)
            / lowest_ask_price book w)) self w = (bd, w1)"
    and "asks book w1 \<noteq> []"
    and "sold = available prec (quoted book) (players w self)
                 - available prec (quoted book) (players w1 self)"
    and "sold < quantity"
    and "w2 = (case bd of None \<Rightarrow> w1 | Some b \<Rightarrow> cancel book b w1)"
    and "lowest_ask_price book w2 \<noteq> 0"
  shows "sell_quoted prec book self requested w =
           Some (Inr (bid book (lowest_ask_price book w2)
                        (round_decimal prec ((quantity - sold) / lowest_ask_price book w2)) self w2))"
  using assms
  by (simp add: sell_quoted_def Let_def dec_div_def sell_quoted_loop_asks_remain not_less [symmetric])

theorem sell_quoted_one_level_witness:
  "(5 / 10000 :: dec) \<le> min 1000 (available 8 Fiat (players two_levels 0))
   \<and> lowest_ask_price (limit_book 8 Havvens Fiat) two_levels = 10
   \<and> lowest_ask_quantity (limit_book 8 Havvens Fiat) two_levels = 5
   \<and> fst first_buy = Some 2
   \<and> asks (limit_book 8 Havvens Fiat) (snd first_buy) = [0, 1]
   \<and> available 8 Fiat (players two_levels 0) - available 8 Fiat (players (snd first_buy) 0) = 5
   \<and> lowest_ask_price (limit_book 8 Havvens Fiat)
        (cancel (limit_book 8 Havvens Fiat) 2 (snd first_buy)) = 10
   \<and> sell_quoted 8 (limit_book 8 Havvens Fiat) 0 1000 two_levels =
        Some (Inr (bid (limit_book 8 Havvens Fiat) 10 (199 / 2) 0
                     (cancel (limit_book 8 Havvens Fiat) 2 (snd first_buy))))
   \<and> fst (bid (limit_book 8 Havvens Fiat) 10 (199 / 2) 0
             (cancel (limit_book 8 Havvens Fiat) 2 (snd first_buy))) = Some 3
   \<and> ask_queue (book_state (snd (bid (limit_book 8 Havvens Fiat) 10 (199 / 2) 0
             (cancel (limit_book 8 Havvens Fiat) 2 (snd first_buy)))))
        = [\<lparr>order_id = 1, owner = 1, limit_price = 11, remaining = 3\<rparr>]
   \<and> bid_queue (book_state (snd (bid (limit_book 8 Havvens Fiat) 10 (199 / 2) 0
             (cancel (limit_book 8 Havvens Fiat) 2 (snd first_buy)))))
        = [\<lparr>order_id = 3, owner = 0, limit_price = 10, remaining = 95\<rparr>]"
proof -
  let ?book = "limit_book 8 Havvens Fiat"
  let ?w2 = "cancel ?book 2 (snd first_buy)"
  have q: "quoted ?book = Fiat" by (simp add: limit_book_def)
  have av: "available 8 Fiat (players two_levels 0) = 1000" by code_simp
  have h2: "(5 / 10000 :: dec) \<le> min 1000 (available 8 Fiat (players two_levels 0))"
    by (simp add: av)
  have p: "lowest_ask_price ?book two_levels = 10" by code_simp
  have lq: "lowest_ask_quantity ?book two_levels = 5" by code_simp
  have r: "round_decimal 8 (min (min 1000 (available 8 Fiat (players two_levels 0)))
             (lowest_ask_quantity ?book two_levels) / lowest_ask_price ?book two_levels) = 1 / 2"
    unfolding av p lq by code_simp
  have b: "fst first_buy = Some 2" by code_simp
  have h4: "buy ?book (round_decimal 8 (min (min 1000 (available 8 Fiat (players two_levels 0)))
             (lowest_ask_quantity ?book two_levels) / lowest_ask_price ?book two_levels)) 0 two_levels
           = (Some 2, snd first_buy)"
    unfolding r using b by (simp add: first_buy_def prod_eq_iff)
  have h5: "asks ?book (snd first_buy) = [0, 1]" by code_simp
  have s: "available 8 Fiat (players two_levels 0) - available 8 Fiat (players (snd first_buy) 0) = 5"
    by code_simp
  have av1: "available 8 Fiat (players (snd first_buy) 0) = 995" by code_simp
  have p2: "lowest_ask_price ?book ?w2 = 10" by code_simp
  have r3: "round_decimal 8 (199 / 2) = 199 / 2" by code_simp
  have r4: "round_decimal 8 (995 / 10) = 199 / 2" by code_simp
  have concl: "sell_quoted 8 ?book 0 1000 two_levels =
        Some (Inr (bid ?book 10 (199 / 2) 0 ?w2))"
    using sell_quoted_one_level [of _ 1000 8 ?book two_levels 0 "Some 2" "snd first_buy" _ ?w2,
        OF refl, unfolded q, OF h2 _ h4 _ refl]
    by (simp add: p h5 av av1 p2 r3 r4)
  have e1: "fst (bid ?book 10 (199 / 2) 0 ?w2) = Some 3" by code_simp
  have e2: "ask_queue (book_state (snd (bid ?book 10 (199 / 2) 0 ?w2)))
        = [\<lparr>order_id = 1, owner = 1, limit_price = 11, remaining = 3\<rparr>]" by code_simp
  have e3: "bid_queue (book_state (snd (bid ?book 10 (199 / 2) 0 ?w2)))
        = [\<lparr>order_id = 3, owner = 0, limit_price = 10, remaining = 95\<rparr>]" by code_simp
  from h2 p lq b h5 s p2 concl e1 e2 e3 show ?thesis by blast
qed


end
